theory Spec2Isabelle
  imports Complex_Main
begin

section \<open>Numbers rendered as text\<close>

text \<open>
  The analyzer builds ratio strings with template literals over the natural
  dimensions of the decoded image.  Those dimensions are unsigned 32-bit
  integers, and a template literal renders an integer of that size in plain
  decimal, most significant digit first.
\<close>

definition digit_char :: "nat \<Rightarrow> char" where
  "digit_char d = ''0123456789'' ! d"

fun string_of_nat :: "nat \<Rightarrow> string" where
  "string_of_nat n =
     (if n < 10 then [digit_char n]
      else string_of_nat (n div 10) @ [digit_char (n mod 10)])"

declare string_of_nat.simps [simp del]

section \<open>Greatest common divisor\<close>

text \<open>
  \<^verbatim>\<open>const gcd = (a, b) => b === 0 ? a : gcd(b, a % b);\<close>
  Both arguments at the only call site are natural image dimensions, that is,
  non-negative integers, on which \<^verbatim>\<open>%\<close> is the remainder of the
  integer division.
\<close>

fun gcd_js :: "nat \<Rightarrow> nat \<Rightarrow> nat" where
  "gcd_js a b = (if b = 0 then a else gcd_js b (a mod b))"

declare gcd_js.simps [simp del]

text \<open>
  \<^verbatim>\<open>${image.naturalWidth / commonDivisor}\<close>: the quotient of two
  non-negative integers, rendered in a template literal.  Division by zero
  does not raise in JavaScript: \<^verbatim>\<open>0 / 0\<close> is \<^verbatim>\<open>NaN\<close> and
  \<^verbatim>\<open>n / 0\<close> is \<^verbatim>\<open>Infinity\<close> for positive \<^verbatim>\<open>n\<close>.  The divisor
  at both call sites is \<open>gcd_js\<close> of the dividend and another number; it
  divides the dividend (lemma \<open>gcd_js_dvd\<close> below), so for a non-zero divisor
  the floating-point quotient is the exact integer \<open>n div d\<close>.  The text of
  a quotient that is not an integer is not modelled: the definition is meant
  for divisors that divide.
\<close>

definition quotient_text :: "nat \<Rightarrow> nat \<Rightarrow> string" where
  "quotient_text n d =
     (if d = 0 then (if n = 0 then ''NaN'' else ''Infinity'')
      else string_of_nat (n div d))"

section \<open>Component state\<close>

datatype ResizeMode = Crop | Stretch

record File =
  file_name :: string
  file_type :: string
  file_size :: nat

record ImageProperties =
  ip_width :: nat
  ip_height :: nat
  ip_type :: string
  ip_size :: nat
  simplifiedRatio :: string

text \<open>
  The state hooks of the \<^verbatim>\<open>ImageAnalyzer\<close> component that the modelled
  handlers read or write.  \<open>localStorage\<close> is the value stored under the key
  \<^verbatim>\<open>customAnalyzerRatios\<close> (the list that is serialised there), \<open>None\<close>
  while the key is absent.  The hooks \<^verbatim>\<open>analysis\<close>, \<^verbatim>\<open>loading\<close>,
  \<^verbatim>\<open>error\<close> and \<^verbatim>\<open>filters\<close> are left out: no result below depends on
  them.
\<close>

record analyzer =
  selectedFile :: "File option"
  previewUrl :: "string option"
  selectedAspectRatio :: string
  autoAspectRatio :: "string option"
  resizeMode :: ResizeMode
  imageProperties :: "ImageProperties option"
  rotation :: real
  isMirrored :: bool
  customRatios :: "string list"
  newRatio :: string
  ratioInputError :: "string option"
  localStorage :: "string list option"

text \<open>The initial values of the hooks; nothing is stored yet.\<close>

definition initial_state :: analyzer where
  "initial_state =
     \<lparr>selectedFile = None,
      previewUrl = None,
      selectedAspectRatio = ''Auto'',
      autoAspectRatio = None,
      resizeMode = Crop,
      imageProperties = None,
      rotation = 0,
      isMirrored = False,
      customRatios = [],
      newRatio = [],
      ratioInputError = None,
      localStorage = None\<rparr>"

section \<open>Selecting a file\<close>

text \<open>
  What the browser reports for the image created from the new preview URL:
  either \<^verbatim>\<open>onload\<close> fires with the natural width and height, or
  \<^verbatim>\<open>onerror\<close> fires.
\<close>

datatype image_load = Loaded nat nat | LoadError

definition image_onload :: "File \<Rightarrow> nat \<Rightarrow> nat \<Rightarrow> analyzer \<Rightarrow> analyzer" where
  "image_onload file naturalWidth naturalHeight st =
     (let commonDivisor = gcd_js naturalWidth naturalHeight
      in st\<lparr>autoAspectRatio :=
              Some (string_of_nat naturalWidth @ '':'' @ string_of_nat naturalHeight),
            selectedAspectRatio := ''Auto'',
            imageProperties := Some
              \<lparr>ip_width = naturalWidth,
               ip_height = naturalHeight,
               ip_type = file_type file,
               ip_size = file_size file,
               simplifiedRatio =
                 quotient_text naturalWidth commonDivisor @ '':'' @
                 quotient_text naturalHeight commonDivisor\<rparr>\<rparr>)"

definition image_onerror :: "analyzer \<Rightarrow> analyzer" where
  "image_onerror st =
     st\<lparr>autoAspectRatio := None,
        selectedAspectRatio := ''16:9'',
        imageProperties := None\<rparr>"

text \<open>
  \<^verbatim>\<open>handleFileChange\<close>: \<open>file\<close> is \<^verbatim>\<open>event.target.files?.[0]\<close>,
  \<open>newPreviewUrl\<close> the object URL the browser hands out for it, \<open>load\<close>
  the outcome of decoding it.  The two image callbacks run after the
  synchronous part of the handler.
\<close>

definition handleFileChange ::
  "File option \<Rightarrow> string \<Rightarrow> image_load \<Rightarrow> analyzer \<Rightarrow> analyzer" where
  "handleFileChange file newPreviewUrl load st =
     (case file of
        None \<Rightarrow> st
      | Some f \<Rightarrow>
          (let st1 = st\<lparr>selectedFile := Some f,
                         previewUrl := Some newPreviewUrl,
                         imageProperties := None,
                         rotation := 0,
                         isMirrored := False\<rparr>
           in case load of
                Loaded w h \<Rightarrow> image_onload f w h st1
              | LoadError \<Rightarrow> image_onerror st1))"

section \<open>Custom aspect ratios\<close>

text \<open>
  Strings are sequences of code units below 256.  \<^verbatim>\<open>String.prototype.trim\<close>
  removes white space and line terminators from both ends; in that range these
  are tab, line feed, vertical tab, form feed, carriage return, space and the
  no-break space.
\<close>

definition is_space :: "char \<Rightarrow> bool" where
  "is_space c = (of_char c \<in> {9, 10, 11, 12, 13, 32, 160 :: nat})"

definition trim :: "string \<Rightarrow> string" where
  "trim s = rev (dropWhile is_space (rev (dropWhile is_space s)))"

text \<open>
  \<^verbatim>\<open>/^[1-9]\d*:[1-9]\d*$/\<close>, without flags: \<^verbatim>\<open>\d\<close> is an ASCII digit,
  \<^verbatim>\<open>^\<close> and \<^verbatim>\<open>$\<close> are the two ends of the input.  \<open>match_posint\<close> matches
  \<^verbatim>\<open>[1-9]\d*\<close> at the front of a string and returns what follows the longest
  match.  What follows in the pattern (a colon, the end) is never a digit, so
  the longest match is the only one that can be continued.
\<close>

definition is_digit :: "char \<Rightarrow> bool" where
  "is_digit c = (c \<in> set ''0123456789'')"

definition is_nonzero_digit :: "char \<Rightarrow> bool" where
  "is_nonzero_digit c = (c \<in> set ''123456789'')"

fun match_posint :: "string \<Rightarrow> string option" where
  "match_posint [] = None"
| "match_posint (c # cs) =
     (if is_nonzero_digit c then Some (dropWhile is_digit cs) else None)"

definition ratioRegex_test :: "string \<Rightarrow> bool" where
  "ratioRegex_test s =
     (case match_posint s of
        Some (c # rest) \<Rightarrow> c = CHR '':'' \<and> match_posint rest = Some []
      | _ \<Rightarrow> False)"

text \<open>
  The language of the pattern in words: a positive decimal numeral without
  leading zero, a colon, and another such numeral.
\<close>

definition posint_numeral :: "string \<Rightarrow> bool" where
  "posint_numeral a =
     (case a of [] \<Rightarrow> False | c # cs \<Rightarrow> is_nonzero_digit c \<and> list_all is_digit cs)"

definition ratio_syntax :: "string \<Rightarrow> bool" where
  "ratio_syntax s =
     (\<exists>a b. s = a @ '':'' @ b \<and> posint_numeral a \<and> posint_numeral b)"

definition analyzerAspectRatios :: "string list" where
  "analyzerAspectRatios = [''16:9'', ''3:2'', ''4:3'', ''1:1'', ''3:4'', ''2:3'', ''9:16'']"

text \<open>
  \<^verbatim>\<open>[...new Set(ratios)]\<close>: the elements are added to the set one after the
  other, an element already present is skipped, and the spread lists the set
  in insertion order.
\<close>

definition set_add :: "'a list \<Rightarrow> 'a \<Rightarrow> 'a list" where
  "set_add seen x = (if x \<in> set seen then seen else seen @ [x])"

definition unique :: "'a list \<Rightarrow> 'a list" where
  "unique xs = foldl set_add [] xs"

definition saveCustomRatios :: "string list \<Rightarrow> analyzer \<Rightarrow> analyzer" where
  "saveCustomRatios ratios st =
     (let uniqueRatios = unique ratios
      in st\<lparr>customRatios := uniqueRatios, localStorage := Some uniqueRatios\<rparr>)"

definition handleAddRatio :: "analyzer \<Rightarrow> analyzer" where
  "handleAddRatio st =
     (let trimmedRatio = trim (newRatio st)
      in if \<not> ratioRegex_test trimmedRatio
         then st\<lparr>ratioInputError := Some ''Invalid format. Use W:H (e.g., 5:4).''\<rparr>
         else if trimmedRatio \<in> set (analyzerAspectRatios @ customRatios st @ [''Auto''])
         then st\<lparr>ratioInputError := Some ''This aspect ratio already exists.''\<rparr>
         else (saveCustomRatios (customRatios st @ [trimmedRatio]) st)
                \<lparr>newRatio := [], ratioInputError := None\<rparr>)"

definition handleRemoveRatio :: "string \<Rightarrow> analyzer \<Rightarrow> analyzer" where
  "handleRemoveRatio ratioToRemove st =
     (let updatedRatios = filter (\<lambda>r. r \<noteq> ratioToRemove) (customRatios st);
          st' = saveCustomRatios updatedRatios st
      in if selectedAspectRatio st = ratioToRemove
         then st'\<lparr>selectedAspectRatio := ''Auto''\<rparr>
         else st')"

text \<open>
  The events of the custom-ratio editor: typing into the text field
  (\<^verbatim>\<open>setNewRatio(e.target.value); setRatioInputError(null)\<close>), the Add
  button, and the remove button of a listed ratio.
\<close>

datatype ratio_event = TypeRatio string | AddRatio | RemoveRatio string

fun ratio_step :: "analyzer \<Rightarrow> ratio_event \<Rightarrow> analyzer" where
  "ratio_step st (TypeRatio s) = st\<lparr>newRatio := s, ratioInputError := None\<rparr>"
| "ratio_step st AddRatio = handleAddRatio st"
| "ratio_step st (RemoveRatio r) = handleRemoveRatio r st"

definition ratio_run :: "ratio_event list \<Rightarrow> analyzer \<Rightarrow> analyzer" where
  "ratio_run evs st = foldl ratio_step st evs"

text \<open>
  The invariant of the custom-ratio list: no duplicates, no \<^verbatim>\<open>Auto\<close>, no
  built-in ratio.
\<close>

definition ratios_inv :: "string list \<Rightarrow> bool" where
  "ratios_inv rs =
     (distinct rs \<and> ''Auto'' \<notin> set rs \<and> set rs \<inter> set analyzerAspectRatios = {})"

text \<open>The two tests an input passes before \<open>handleAddRatio\<close> saves it.\<close>

definition add_accepts :: "analyzer \<Rightarrow> bool" where
  "add_accepts st =
     (ratioRegex_test (trim (newRatio st)) \<and>
      trim (newRatio st) \<notin> set (analyzerAspectRatios @ customRatios st @ [''Auto'']))"

section \<open>Reading a ratio string\<close>

text \<open>
  \<^verbatim>\<open>effectiveAspectRatio.split(':').map(Number)\<close>.  \<open>split_colon\<close> is
  \<^verbatim>\<open>split(':')\<close>: the pieces between the colons, one more than there are
  colons.  \<open>Number_js\<close> is \<^verbatim>\<open>Number\<close> on a plain decimal numeral; the
  result is \<open>None\<close> on every other string (\<^verbatim>\<open>Number\<close> gives
  \<^verbatim>\<open>NaN\<close> for most of them, and a number for the empty string, for signs,
  fractions, exponents, white space and radix prefixes, which are not modelled).
  Numerals are read exactly; a double holds every integer up to \<open>2^53\<close>.
\<close>

fun split_colon :: "string \<Rightarrow> string list" where
  "split_colon [] = [[]]"
| "split_colon (c # cs) =
     (if c = CHR '':'' then [] # split_colon cs
      else (case split_colon cs of
              [] \<Rightarrow> [[c]]
            | piece # pieces \<Rightarrow> (c # piece) # pieces))"

definition digit_val :: "char \<Rightarrow> nat" where
  "digit_val c = of_char c - 48"

definition Number_js :: "string \<Rightarrow> nat option" where
  "Number_js s =
     (if s \<noteq> [] \<and> list_all is_digit s
      then Some (foldl (\<lambda>n c. 10 * n + digit_val c) 0 s)
      else None)"

text \<open>
  \<^verbatim>\<open>const [ratioW, ratioH] = ...\<close>: the first two pieces; a missing second
  piece is \<^verbatim>\<open>undefined\<close>, which is no number either.
\<close>

definition parseRatio :: "string \<Rightarrow> nat option \<times> nat option" where
  "parseRatio s =
     (case map Number_js (split_colon s) of
        [] \<Rightarrow> (None, None)
      | [w] \<Rightarrow> (w, None)
      | w # h # _ \<Rightarrow> (w, h))"

section \<open>Canvas geometry\<close>

text \<open>
  JavaScript numbers are modelled by real numbers: the arithmetic of the
  source is followed operation by operation, without the rounding of doubles.

  The current transformation matrix of a 2D context, in the field layout of
  the canvas interface: a point \<open>(x, y)\<close> of user space is painted at
  \<open>(a x + c y + e, b x + d y + f)\<close>.  A fresh context has the identity;
  \<^verbatim>\<open>translate\<close>, \<^verbatim>\<open>rotate\<close> and \<^verbatim>\<open>scale\<close> multiply the current
  matrix on the right by the matrix of the new operation.
\<close>

record matrix2d =
  m_a :: real
  m_b :: real
  m_c :: real
  m_d :: real
  m_e :: real
  m_f :: real

definition identity_matrix :: matrix2d where
  "identity_matrix = \<lparr>m_a = 1, m_b = 0, m_c = 0, m_d = 1, m_e = 0, m_f = 0\<rparr>"

definition mat_mul :: "matrix2d \<Rightarrow> matrix2d \<Rightarrow> matrix2d" where
  "mat_mul m n =
     \<lparr>m_a = m_a m * m_a n + m_c m * m_b n,
      m_b = m_b m * m_a n + m_d m * m_b n,
      m_c = m_a m * m_c n + m_c m * m_d n,
      m_d = m_b m * m_c n + m_d m * m_d n,
      m_e = m_a m * m_e n + m_c m * m_f n + m_e m,
      m_f = m_b m * m_e n + m_d m * m_f n + m_f m\<rparr>"


definition ctx_translate :: "matrix2d \<Rightarrow> real \<Rightarrow> real \<Rightarrow> matrix2d" where
  "ctx_translate ctm x y =
     mat_mul ctm \<lparr>m_a = 1, m_b = 0, m_c = 0, m_d = 1, m_e = x, m_f = y\<rparr>"

definition ctx_rotate :: "matrix2d \<Rightarrow> real \<Rightarrow> matrix2d" where
  "ctx_rotate ctm angle =
     mat_mul ctm \<lparr>m_a = cos angle, m_b = sin angle, m_c = - sin angle, m_d = cos angle,
                  m_e = 0, m_f = 0\<rparr>"

definition ctx_scale :: "matrix2d \<Rightarrow> real \<Rightarrow> real \<Rightarrow> matrix2d" where
  "ctx_scale ctm x y =
     mat_mul ctm \<lparr>m_a = x, m_b = 0, m_c = 0, m_d = y, m_e = 0, m_f = 0\<rparr>"




text \<open>
  Lines 192 to 197: the size of the box around the rotated image, from the
  natural size and the rotation in degrees.
\<close>

definition angleRad :: "real \<Rightarrow> real" where
  "angleRad rotation_deg = (rotation_deg * pi) / 180"

definition rotatedBox :: "real \<Rightarrow> real \<Rightarrow> real \<Rightarrow> real \<times> real" where
  "rotatedBox naturalWidth naturalHeight rotation_deg =
     (let cos_a = \<bar>cos (angleRad rotation_deg)\<bar>;
          sin_a = \<bar>sin (angleRad rotation_deg)\<bar>
      in (naturalWidth * cos_a + naturalHeight * sin_a,
          naturalWidth * sin_a + naturalHeight * cos_a))"

text \<open>
  Assigning a non-negative number to the \<^verbatim>\<open>width\<close> or \<^verbatim>\<open>height\<close> of a
  canvas drops its fractional part.  (The upper limit of the attribute is not
  modelled.)
\<close>

definition canvas_size :: "real \<Rightarrow> nat" where
  "canvas_size x = nat \<lfloor>x\<rfloor>"

text \<open>
  Lines 204 to 208: the transformation under which the source image is painted
  on the temporary canvas.
\<close>

definition paintTransform :: "real \<Rightarrow> real \<Rightarrow> real \<Rightarrow> bool \<Rightarrow> matrix2d" where
  "paintTransform rotatedWidth rotatedHeight angle mirrored =
     (let t1 = ctx_translate identity_matrix (rotatedWidth / 2) (rotatedHeight / 2);
          t2 = ctx_rotate t1 angle
      in if mirrored then ctx_scale t2 (- 1) 1 else t2)"

text \<open>
  A call of \<^verbatim>\<open>drawImage\<close> in its nine-argument form: the source rectangle
  and the destination rectangle.  The five-argument form takes the whole
  source.
\<close>

record draw_call =
  src_x :: real
  src_y :: real
  src_w :: real
  src_h :: real
  dst_x :: real
  dst_y :: real
  dst_w :: real
  dst_h :: real

text \<open>Lines 223 to 239: fitting the temporary canvas into the final canvas.\<close>

definition drawFinal :: "ResizeMode \<Rightarrow> nat \<Rightarrow> nat \<Rightarrow> real \<Rightarrow> real \<Rightarrow> real \<Rightarrow> draw_call" where
  "drawFinal mode sourceWidth sourceHeight targetAspectRatio outputWidth outputHeight =
     (case mode of
        Stretch \<Rightarrow>
          \<lparr>src_x = 0, src_y = 0, src_w = real sourceWidth, src_h = real sourceHeight,
           dst_x = 0, dst_y = 0, dst_w = outputWidth, dst_h = outputHeight\<rparr>
      | Crop \<Rightarrow>
          (let imageAspectRatio = real sourceWidth / real sourceHeight
           in if imageAspectRatio > targetAspectRatio then
                (let sWidth = real sourceHeight * targetAspectRatio
                 in \<lparr>src_x = (real sourceWidth - sWidth) / 2, src_y = 0,
                     src_w = sWidth, src_h = real sourceHeight,
                     dst_x = 0, dst_y = 0, dst_w = outputWidth, dst_h = outputHeight\<rparr>)
              else if imageAspectRatio < targetAspectRatio then
                (let sHeight = real sourceWidth / targetAspectRatio
                 in \<lparr>src_x = 0, src_y = (real sourceHeight - sHeight) / 2,
                     src_w = real sourceWidth, src_h = sHeight,
                     dst_x = 0, dst_y = 0, dst_w = outputWidth, dst_h = outputHeight\<rparr>)
              else
                \<lparr>src_x = 0, src_y = 0, src_w = real sourceWidth, src_h = real sourceHeight,
                 dst_x = 0, dst_y = 0, dst_w = outputWidth, dst_h = outputHeight\<rparr>))"

text \<open>Line 241: the type handed to \<^verbatim>\<open>toDataURL\<close>.\<close>

definition outputMimeType :: "string \<Rightarrow> string" where
  "outputMimeType file_type_str =
     (if file_type_str = ''image/jpeg'' \<or> file_type_str = ''image/png''
      then file_type_str else ''image/png'')"

section \<open>Producing the processed image\<close>

text \<open>
  What the browser does during one run of \<^verbatim>\<open>getProcessedImageAsDataUrl\<close>:
  the outcome of loading the preview URL into an image, and whether the two
  canvases hand out a 2D context.
\<close>

record canvas_env =
  env_load :: image_load
  env_tempCtx :: bool
  env_finalCtx :: bool

text \<open>
  The rejections of the promise, in the order of the source:
  \<^verbatim>\<open>Please select an image file first.\<close>,
  \<^verbatim>\<open>Could not determine aspect ratio. Please select one manually.\<close>,
  \<^verbatim>\<open>Failed to load image file for processing.\<close>,
  \<^verbatim>\<open>Could not get temp canvas context\<close>,
  \<^verbatim>\<open>Could not get final canvas context\<close>.
\<close>

datatype rejection =
  NoFileSelected
| AspectRatioUndetermined
| ImageLoadFailed
| NoTempContext
| NoFinalContext

text \<open>
  The value the promise resolves with, described by the calls that produced
  it: the size of the temporary canvas, the transformation and position under
  which the source image was painted on it, the size of the final canvas, the
  \<^verbatim>\<open>drawImage\<close> call that filled it, and the type it was encoded in.
  Pixel values are not modelled.
\<close>

record processed =
  temp_width :: nat
  temp_height :: nat
  paint_matrix :: matrix2d
  paint_x :: real
  paint_y :: real
  out_width :: nat
  out_height :: nat
  final_draw :: draw_call
  out_mimeType :: string

text \<open>Lines 192 to 242, for a ratio string read as \<open>ratioW:ratioH\<close>.\<close>

definition render :: "File \<Rightarrow> analyzer \<Rightarrow> nat \<Rightarrow> nat \<Rightarrow> nat \<Rightarrow> nat \<Rightarrow> processed" where
  "render file st naturalWidth naturalHeight ratioW ratioH =
     (let rotatedWidth = fst (rotatedBox (real naturalWidth) (real naturalHeight) (rotation st));
          rotatedHeight = snd (rotatedBox (real naturalWidth) (real naturalHeight) (rotation st));
          tempWidth = canvas_size rotatedWidth;
          tempHeight = canvas_size rotatedHeight;
          targetAspectRatio = real ratioW / real ratioH;
          outputWidth = 1024;
          outputHeight = outputWidth / targetAspectRatio
      in \<lparr>temp_width = tempWidth,
          temp_height = tempHeight,
          paint_matrix =
            paintTransform rotatedWidth rotatedHeight (angleRad (rotation st)) (isMirrored st),
          paint_x = - real naturalWidth / 2,
          paint_y = - real naturalHeight / 2,
          out_width = canvas_size outputWidth,
          out_height = canvas_size outputHeight,
          final_draw =
            drawFinal (resizeMode st) tempWidth tempHeight targetAspectRatio
              outputWidth outputHeight,
          out_mimeType = outputMimeType (file_type file)\<rparr>)"

text \<open>
  Line 176: the ratio string in force; \<open>None\<close> is \<^verbatim>\<open>null\<close>.
\<close>

definition effectiveAspectRatio :: "analyzer \<Rightarrow> string option" where
  "effectiveAspectRatio st =
     (if selectedAspectRatio st = ''Auto'' then autoAspectRatio st
      else Some (selectedAspectRatio st))"

text \<open>
  \<^verbatim>\<open>getProcessedImageAsDataUrl\<close>.  \<open>Some (Inl r)\<close> is a rejected promise,
  \<open>Some (Inr p)\<close> a resolved one.  The result is \<open>None\<close> where the run leaves
  the arithmetic modelled here: a ratio string whose two parts are not both
  positive decimal numerals, or an image without extent; the source then
  computes with \<^verbatim>\<open>NaN\<close>, \<^verbatim>\<open>Infinity\<close> or empty canvases, about which
  nothing is stated.
\<close>

definition getProcessedImageAsDataUrl ::
  "canvas_env \<Rightarrow> analyzer \<Rightarrow> (rejection + processed) option" where
  "getProcessedImageAsDataUrl env st =
     (case selectedFile st of
        None \<Rightarrow> Some (Inl NoFileSelected)
      | Some file \<Rightarrow>
          if previewUrl st = None \<or> previewUrl st = Some [] then Some (Inl NoFileSelected)
          else
            (case effectiveAspectRatio st of
               None \<Rightarrow> Some (Inl AspectRatioUndetermined)
             | Some ratio \<Rightarrow>
                 if ratio = [] then Some (Inl AspectRatioUndetermined)
                 else
                   (case env_load env of
                      LoadError \<Rightarrow> Some (Inl ImageLoadFailed)
                    | Loaded naturalWidth naturalHeight \<Rightarrow>
                        if \<not> env_tempCtx env then Some (Inl NoTempContext)
                        else if \<not> env_finalCtx env then Some (Inl NoFinalContext)
                        else
                          (case parseRatio ratio of
                             (Some ratioW, Some ratioH) \<Rightarrow>
                               if 0 < ratioW \<and> 0 < ratioH \<and>
                                  0 < naturalWidth \<and> 0 < naturalHeight
                               then Some (Inr (render file st naturalWidth naturalHeight
                                                ratioW ratioH))
                               else None
                           | _ \<Rightarrow> None))))"

section \<open>Sending the image to the analysis service\<close>

text \<open>
  The argument of \<^verbatim>\<open>analyzeImage\<close>: the declared type and the data, which
  is the payload of the data URL and so encoded in \<open>out_mimeType\<close>.
\<close>

record analysis_request =
  req_mimeType :: string
  req_data :: processed

datatype analyze_outcome =
  NothingSelected
| Failed rejection
| Sent analysis_request

definition handleAnalyze :: "canvas_env \<Rightarrow> analyzer \<Rightarrow> analyze_outcome option" where
  "handleAnalyze env st =
     (case selectedFile st of
        None \<Rightarrow> Some NothingSelected
      | Some file \<Rightarrow>
          (case getProcessedImageAsDataUrl env st of
             None \<Rightarrow> None
           | Some (Inl r) \<Rightarrow> Some (Failed r)
           | Some (Inr dataUrl) \<Rightarrow>
               Some (Sent \<lparr>req_mimeType = file_type file, req_data = dataUrl\<rparr>)))"

section \<open>The preview transform\<close>





section \<open>A sample run\<close>

text \<open>
  A 1920 by 1080 image in a format other than JPEG and PNG, selected in the
  initial state and decoded without error; both canvases provide a context.
\<close>

definition sample_file :: File where
  "sample_file = \<lparr>file_name = ''photo.webp'', file_type = ''image/webp'', file_size = 2048\<rparr>"

definition sample_state :: analyzer where
  "sample_state =
     handleFileChange (Some sample_file) ''blob:sample'' (Loaded 1920 1080) initial_state"

definition sample_env :: canvas_env where
  "sample_env = \<lparr>env_load = Loaded 1920 1080, env_tempCtx = True, env_finalCtx = True\<rparr>"

section \<open>Properties of the divisor\<close>

lemma gcd_js_eq_gcd: "gcd_js a b = gcd a b"
proof (induction a b rule: gcd_js.induct)
  case (1 a b)
  show ?case
  proof (cases "b = 0")
    case True
    then show ?thesis by (subst gcd_js.simps) simp
  next
    case False
    with 1 have "gcd_js a b = gcd b (a mod b)"
      by (subst gcd_js.simps) simp
    then show ?thesis
      using gcd_red_nat [of a b] by simp
  qed
qed

lemma gcd_js_dvd: "gcd_js a b dvd a" "gcd_js a b dvd b"
  by (simp_all add: gcd_js_eq_gcd)

lemma gcd_js_zero_right: "gcd_js a 0 = a"
  by (subst gcd_js.simps) simp

lemma gcd_js_pos: "0 < a \<Longrightarrow> 0 < gcd_js a b"
  by (simp add: gcd_js_eq_gcd)

lemma quotient_text_exact:
  "0 < d \<Longrightarrow> quotient_text n d = string_of_nat (n div d)"
  by (simp add: quotient_text_def)

section \<open>Automatic aspect ratio\<close>

text \<open>
  Claim C5.  For positive natural dimensions \<open>w\<close> and \<open>h\<close> of a loaded image,
  the divisor computed by the recursive helper is the greatest common divisor
  of \<open>w\<close> and \<open>h\<close> (and the helper returns its first argument when the second
  is \<open>0\<close>); the handler stores the raw ratio string \<open>w:h\<close> and the
  simplified ratio \<open>w/g:h/g\<close>; the simplified pair has the same ratio as
  \<open>w\<close> and \<open>h\<close> by cross-multiplication and is coprime.
\<close>

theorem auto_ratio_simplified:
  assumes "0 < w" and "0 < h"
  shows "let g = gcd_js w h;
             st' = handleFileChange (Some f) url (Loaded w h) st
         in g = gcd w h \<and> gcd_js w 0 = w \<and>
            autoAspectRatio st' = Some (string_of_nat w @ '':'' @ string_of_nat h) \<and>
            map_option simplifiedRatio (imageProperties st') =
              Some (string_of_nat (w div g) @ '':'' @ string_of_nat (h div g)) \<and>
            w * (h div g) = h * (w div g) \<and>
            gcd (w div g) (h div g) = 1"
proof -
  define g where "g = gcd_js w h"
  define st' where "st' = handleFileChange (Some f) url (Loaded w h) st"
  have gpos: "0 < g"
    using assms(1) by (simp add: g_def gcd_js_pos)
  have p1: "g = gcd w h"
    by (simp add: g_def gcd_js_eq_gcd)
  have p2: "gcd_js w 0 = w"
    by (rule gcd_js_zero_right)
  have p3: "autoAspectRatio st' = Some (string_of_nat w @ '':'' @ string_of_nat h)"
    by (simp add: st'_def handleFileChange_def image_onload_def Let_def)
  have p4: "map_option simplifiedRatio (imageProperties st') =
           Some (string_of_nat (w div g) @ '':'' @ string_of_nat (h div g))"
    using gpos
    by (simp add: st'_def handleFileChange_def image_onload_def Let_def
        quotient_text_exact g_def)
  have dw: "g dvd w" and dh: "g dvd h"
    by (simp_all add: g_def gcd_js_dvd)
  have "w * (h div g) = (w div g) * g * (h div g)"
    using dw by simp
  also have "\<dots> = (w div g) * ((h div g) * g)"
    by (simp add: mult.assoc mult.commute)
  also have "\<dots> = h * (w div g)"
    using dh by (simp add: mult.commute)
  finally have p5: "w * (h div g) = h * (w div g)" .
  have p6: "gcd (w div g) (h div g) = 1"
    using assms(1) by (simp add: p1 div_gcd_coprime)
  from p1 p2 p3 p4 p5 p6 show ?thesis
    unfolding Let_def g_def [symmetric] st'_def [symmetric] by blast
qed

theorem auto_ratio_simplified_witness:
  "(0::nat) < 1920 \<and> (0::nat) < 1080 \<and> gcd_js 1920 1080 = 120 \<and>
   autoAspectRatio sample_state = Some ''1920:1080'' \<and>
   map_option simplifiedRatio (imageProperties sample_state) = Some ''16:9'' \<and>
   (1920::nat) * 9 = 1080 * 16"
proof -
  have g: "gcd_js 1920 1080 = 120"
    by code_simp
  have s: "string_of_nat 1920 = ''1920''" "string_of_nat 1080 = ''1080''"
    "string_of_nat 16 = ''16''" "string_of_nat 9 = ''9''"
    by code_simp+
  show ?thesis
    using auto_ratio_simplified [of 1920 1080 sample_file "''blob:sample''" initial_state]
    by (simp add: Let_def g s sample_state_def)
qed




section \<open>Decimal numerals are read back\<close>

lemma digit_cases:
  "d < (10::nat) \<Longrightarrow>
     d = 0 \<or> d = 1 \<or> d = 2 \<or> d = 3 \<or> d = 4 \<or> d = 5 \<or> d = 6 \<or> d = 7 \<or> d = 8 \<or> d = 9"
  by arith

lemma digit_char_is_digit: "d < 10 \<Longrightarrow> is_digit (digit_char d)"
  by (drule digit_cases) (auto simp: digit_char_def is_digit_def)

lemma digit_val_digit_char: "d < 10 \<Longrightarrow> digit_val (digit_char d) = d"
  by (drule digit_cases) (auto simp: digit_char_def digit_val_def)

lemma string_of_nat_digits: "list_all is_digit (string_of_nat n)"
proof (induction n rule: string_of_nat.induct)
  case (1 n)
  show ?case
  proof (cases "n < 10")
    case True
    then show ?thesis
      by (subst string_of_nat.simps) (simp add: digit_char_is_digit)
  next
    case False
    with 1 show ?thesis
      by (subst string_of_nat.simps) (simp add: digit_char_is_digit)
  qed
qed

lemma string_of_nat_nonempty: "string_of_nat n \<noteq> []"
  by (subst string_of_nat.simps) simp

lemma decimal_value: "foldl (\<lambda>n c. 10 * n + digit_val c) 0 (string_of_nat n) = n"
proof (induction n rule: string_of_nat.induct)
  case (1 n)
  show ?case
  proof (cases "n < 10")
    case True
    then show ?thesis
      by (subst string_of_nat.simps) (simp add: digit_val_digit_char)
  next
    case False
    with 1 show ?thesis
      by (subst string_of_nat.simps) (simp add: digit_val_digit_char)
  qed
qed

lemma Number_js_string_of_nat: "Number_js (string_of_nat n) = Some n"
  by (simp add: Number_js_def string_of_nat_digits string_of_nat_nonempty decimal_value)

lemma split_colon_digits: "list_all is_digit s \<Longrightarrow> split_colon s = [s]"
  by (induction s) (auto simp: is_digit_def)

lemma split_colon_digits_colon:
  "list_all is_digit a \<Longrightarrow> split_colon (a @ CHR '':'' # b) = a # split_colon b"
  by (induction a) (auto simp: is_digit_def)

lemma parseRatio_auto:
  "parseRatio (string_of_nat w @ '':'' @ string_of_nat h) = (Some w, Some h)"
  by (simp add: parseRatio_def split_colon_digits_colon split_colon_digits
      string_of_nat_digits Number_js_string_of_nat)

lemma effective_after_load:
  "effectiveAspectRatio (handleFileChange (Some f) url (Loaded w h) st) =
     Some (string_of_nat w @ '':'' @ string_of_nat h)"
  by (simp add: effectiveAspectRatio_def handleFileChange_def image_onload_def Let_def)

section \<open>The ratio pattern\<close>

lemma match_posint_end: "match_posint b = Some [] \<longleftrightarrow> posint_numeral b"
  by (cases b) (auto simp: posint_numeral_def list_all_iff)

lemma dropWhile_digits_colon:
  "list_all is_digit cs \<Longrightarrow> dropWhile is_digit (cs @ CHR '':'' # b) = CHR '':'' # b"
  by (induction cs) (simp_all add: is_digit_def)

lemma ratio_syntax_imp_test:
  assumes "ratio_syntax s"
  shows "ratioRegex_test s"
proof -
  from assms obtain a b where s: "s = a @ '':'' @ b"
    and a: "posint_numeral a" and b: "posint_numeral b"
    by (auto simp: ratio_syntax_def)
  from a obtain c cs where ac: "a = c # cs" "is_nonzero_digit c" "list_all is_digit cs"
    by (cases a) (auto simp: posint_numeral_def)
  have "match_posint s = Some (CHR '':'' # b)"
    using ac by (simp add: s dropWhile_digits_colon)
  then show ?thesis
    using b by (simp add: ratioRegex_test_def match_posint_end)
qed

lemma test_imp_ratio_syntax:
  assumes "ratioRegex_test s"
  shows "ratio_syntax s"
proof -
  from assms obtain rest where m: "match_posint s = Some (CHR '':'' # rest)"
    and r: "match_posint rest = Some []"
    by (auto simp: ratioRegex_test_def split: option.splits list.splits)
  from m obtain c cs where s: "s = c # cs" and c: "is_nonzero_digit c"
    and d: "dropWhile is_digit cs = CHR '':'' # rest"
    by (cases s) (auto split: if_splits)
  have "cs = takeWhile is_digit cs @ dropWhile is_digit cs"
    by simp
  then have "s = (c # takeWhile is_digit cs) @ '':'' @ rest"
    using s d by simp
  moreover have "posint_numeral (c # takeWhile is_digit cs)"
    using c by (simp add: posint_numeral_def list_all_iff) (meson set_takeWhileD)
  moreover have "posint_numeral rest"
    using r by (simp add: match_posint_end)
  ultimately show ?thesis
    unfolding ratio_syntax_def by blast
qed

lemma ratioRegex_test_iff: "ratioRegex_test s \<longleftrightarrow> ratio_syntax s"
  using ratio_syntax_imp_test test_imp_ratio_syntax by blast

section \<open>Lists without repetition\<close>

lemma set_foldl_set_add: "set (foldl set_add acc xs) = set acc \<union> set xs"
  by (induction xs arbitrary: acc) (auto simp: set_add_def)

lemma distinct_foldl_set_add: "distinct acc \<Longrightarrow> distinct (foldl set_add acc xs)"
  by (induction xs arbitrary: acc) (auto simp: set_add_def)

lemma foldl_set_add_distinct: "distinct (acc @ xs) \<Longrightarrow> foldl set_add acc xs = acc @ xs"
proof (induction xs arbitrary: acc)
  case Nil
  then show ?case by simp
next
  case (Cons x xs)
  from Cons.prems have "x \<notin> set acc" by auto
  then have "set_add acc x = acc @ [x]" by (simp add: set_add_def)
  moreover from Cons.prems have "distinct ((acc @ [x]) @ xs)" by auto
  ultimately show ?case using Cons.IH [of "acc @ [x]"] by simp
qed

lemma set_unique: "set (unique xs) = set xs"
  by (simp add: unique_def set_foldl_set_add)

lemma distinct_unique: "distinct (unique xs)"
  by (simp add: unique_def distinct_foldl_set_add)

lemma unique_distinct: "distinct xs \<Longrightarrow> unique xs = xs"
  using foldl_set_add_distinct [of "[]" xs] by (simp add: unique_def)

lemma customRatios_save: "customRatios (saveCustomRatios rs st) = unique rs"
  by (simp add: saveCustomRatios_def Let_def)

lemma localStorage_save: "localStorage (saveCustomRatios rs st) = Some (unique rs)"
  by (simp add: saveCustomRatios_def Let_def)

section \<open>Adding and removing custom ratios\<close>

text \<open>
  Claim C7.  \<open>handleAddRatio\<close> accepts the trimmed input (clears the input error
  and saves the ratio) if and only if it is of the form of the pattern, a
  positive numeral, a colon, a positive numeral, and is neither a built-in
  analyzer ratio, nor a custom ratio already listed, nor \<open>Auto\<close>.  An accepted
  ratio is in the saved list.  A malformed input is rejected with the format
  message, a well-formed one already present with the duplicate message, and a
  rejection leaves the list and its stored copy as they were.
\<close>

theorem add_ratio_accepts_iff:
  "let t = trim (newRatio st);
       st' = handleAddRatio st;
       fresh = (t \<notin> set analyzerAspectRatios \<and> t \<notin> set (customRatios st) \<and> t \<noteq> ''Auto'')
   in (ratioInputError st' = None \<longleftrightarrow> ratio_syntax t \<and> fresh) \<and>
      (ratio_syntax t \<and> fresh \<longrightarrow>
         customRatios st' = unique (customRatios st @ [t]) \<and>
         t \<in> set (customRatios st') \<and>
         localStorage st' = Some (customRatios st')) \<and>
      (\<not> ratio_syntax t \<longrightarrow>
         ratioInputError st' = Some ''Invalid format. Use W:H (e.g., 5:4).'') \<and>
      (ratio_syntax t \<and> \<not> fresh \<longrightarrow>
         ratioInputError st' = Some ''This aspect ratio already exists.'') \<and>
      (\<not> (ratio_syntax t \<and> fresh) \<longrightarrow>
         customRatios st' = customRatios st \<and> localStorage st' = localStorage st)"
proof (cases "ratioRegex_test (trim (newRatio st))")
  case False
  then show ?thesis
    by (simp add: handleAddRatio_def Let_def ratioRegex_test_iff [symmetric])
next
  case True
  note match = this
  show ?thesis
  proof (cases "trim (newRatio st) \<in> set (analyzerAspectRatios @ customRatios st @ [''Auto''])")
    case True
    with match show ?thesis
      by (simp add: handleAddRatio_def Let_def ratioRegex_test_iff [symmetric]) blast
  next
    case False
    with match show ?thesis
      by (simp add: handleAddRatio_def Let_def ratioRegex_test_iff [symmetric] set_unique
          customRatios_save localStorage_save)
  qed
qed

lemma ratio_tests:
  "ratioRegex_test ''5:4''" "\<not> ratioRegex_test ''0:4''"
  by (simp_all add: ratioRegex_test_def is_digit_def is_nonzero_digit_def)

lemma trim_examples: "trim ''5:4'' = ''5:4''" "trim ''0:4'' = ''0:4''"
  by (simp_all add: trim_def is_space_def)

lemma add_5_4_fresh:
  "handleAddRatio (initial_state\<lparr>newRatio := ''5:4''\<rparr>) =
     initial_state\<lparr>customRatios := [''5:4''], localStorage := Some [''5:4'']\<rparr>"
  by (simp add: handleAddRatio_def Let_def trim_examples ratio_tests saveCustomRatios_def
      unique_def set_add_def analyzerAspectRatios_def initial_state_def)

text \<open>
  The three cases of the scenario: \<open>5:4\<close> typed into the initial state is
  accepted, \<open>0:4\<close> is rejected for its format, and \<open>5:4\<close> typed again after
  it was saved is rejected as a duplicate.
\<close>

theorem add_ratio_accepts_iff_witness:
  "customRatios (handleAddRatio (initial_state\<lparr>newRatio := ''5:4''\<rparr>)) = [''5:4''] \<and>
   ratioInputError (handleAddRatio (initial_state\<lparr>newRatio := ''5:4''\<rparr>)) = None \<and>
   ratioInputError (handleAddRatio (initial_state\<lparr>newRatio := ''0:4''\<rparr>)) =
     Some ''Invalid format. Use W:H (e.g., 5:4).'' \<and>
   customRatios (handleAddRatio (initial_state\<lparr>newRatio := ''0:4''\<rparr>)) = [] \<and>
   ratioInputError
     (handleAddRatio (handleAddRatio (initial_state\<lparr>newRatio := ''5:4''\<rparr>)\<lparr>newRatio := ''5:4''\<rparr>)) =
     Some ''This aspect ratio already exists.'' \<and>
   customRatios
     (handleAddRatio (handleAddRatio (initial_state\<lparr>newRatio := ''5:4''\<rparr>)\<lparr>newRatio := ''5:4''\<rparr>)) =
     [''5:4'']"
proof -
  have good: "ratio_syntax ''5:4''"
    using ratio_tests(1) by (simp add: ratioRegex_test_iff)
  have bad: "\<not> ratio_syntax ''0:4''"
    using ratio_tests(2) by (simp add: ratioRegex_test_iff)
  have first: "customRatios (handleAddRatio (initial_state\<lparr>newRatio := ''5:4''\<rparr>)) = [''5:4''] \<and>
      ratioInputError (handleAddRatio (initial_state\<lparr>newRatio := ''5:4''\<rparr>)) = None"
    using add_ratio_accepts_iff [of "initial_state\<lparr>newRatio := ''5:4''\<rparr>"] good
    by (simp add: Let_def trim_examples analyzerAspectRatios_def initial_state_def
        unique_def set_add_def)
  have second: "ratioInputError (handleAddRatio (initial_state\<lparr>newRatio := ''0:4''\<rparr>)) =
       Some ''Invalid format. Use W:H (e.g., 5:4).'' \<and>
     customRatios (handleAddRatio (initial_state\<lparr>newRatio := ''0:4''\<rparr>)) = []"
    using add_ratio_accepts_iff [of "initial_state\<lparr>newRatio := ''0:4''\<rparr>"] bad
    by (simp add: Let_def trim_examples initial_state_def)
  define st3 where
    "st3 = handleAddRatio (initial_state\<lparr>newRatio := ''5:4''\<rparr>)\<lparr>newRatio := ''5:4''\<rparr>"
  have f3: "trim (newRatio st3) = ''5:4''" "customRatios st3 = [''5:4'']"
    by (simp_all add: st3_def add_5_4_fresh trim_examples)
  have "ratioInputError (handleAddRatio st3) = Some ''This aspect ratio already exists.'' \<and>
     customRatios (handleAddRatio st3) = [''5:4'']"
    using add_ratio_accepts_iff [of st3] good
    by (simp add: Let_def f3)
  then have third: "ratioInputError
       (handleAddRatio (handleAddRatio (initial_state\<lparr>newRatio := ''5:4''\<rparr>)\<lparr>newRatio := ''5:4''\<rparr>)) =
       Some ''This aspect ratio already exists.'' \<and>
     customRatios
       (handleAddRatio (handleAddRatio (initial_state\<lparr>newRatio := ''5:4''\<rparr>)\<lparr>newRatio := ''5:4''\<rparr>)) =
       [''5:4'']"
    unfolding st3_def .
  from first second third show ?thesis
    by blast
qed

lemma ratios_inv_add:
  assumes "ratios_inv (customRatios st)"
  shows "ratios_inv (customRatios (handleAddRatio st))"
proof (cases "add_accepts st")
  case False
  then have "customRatios (handleAddRatio st) = customRatios st"
    by (auto simp: handleAddRatio_def add_accepts_def Let_def)
  with assms show ?thesis by simp
next
  case True
  define t where "t = trim (newRatio st)"
  from True have t: "t \<notin> set analyzerAspectRatios" "t \<notin> set (customRatios st)" "t \<noteq> ''Auto''"
    by (auto simp: add_accepts_def t_def)
  from True have "customRatios (handleAddRatio st) = unique (customRatios st @ [t])"
    by (auto simp: handleAddRatio_def add_accepts_def Let_def t_def customRatios_save)
  moreover have "distinct (customRatios st @ [t])"
    using assms t by (simp add: ratios_inv_def)
  ultimately have "customRatios (handleAddRatio st) = customRatios st @ [t]"
    by (simp add: unique_distinct)
  with assms t show ?thesis
    by (auto simp: ratios_inv_def)
qed

lemma ratios_inv_remove:
  assumes "ratios_inv (customRatios st)"
  shows "ratios_inv (customRatios (handleRemoveRatio r st))"
proof -
  have "customRatios (handleRemoveRatio r st) = unique (filter (\<lambda>x. x \<noteq> r) (customRatios st))"
    by (simp add: handleRemoveRatio_def Let_def customRatios_save)
  moreover have "distinct (filter (\<lambda>x. x \<noteq> r) (customRatios st))"
    using assms by (simp add: ratios_inv_def)
  ultimately have "customRatios (handleRemoveRatio r st) = filter (\<lambda>x. x \<noteq> r) (customRatios st)"
    by (simp add: unique_distinct)
  with assms show ?thesis
    by (auto simp: ratios_inv_def)
qed

lemma ratios_inv_step:
  "ratios_inv (customRatios st) \<Longrightarrow> ratios_inv (customRatios (ratio_step st ev))"
  by (cases ev) (simp_all add: ratios_inv_add ratios_inv_remove)

lemma ratios_inv_run:
  "ratios_inv (customRatios st) \<Longrightarrow> ratios_inv (customRatios (ratio_run evs st))"
  unfolding ratio_run_def
  by (induction evs arbitrary: st) (simp_all add: ratios_inv_step)

text \<open>
  Claim C10.  If the custom-ratio list has no duplicates, does not contain
  \<open>Auto\<close> and contains no built-in analyzer ratio, the same holds after
  \<open>handleAddRatio\<close>, after \<open>handleRemoveRatio\<close>, and after every sequence of
  editor events; and whatever list is saved, \<open>saveCustomRatios\<close> stores it
  without duplicates.
\<close>

theorem custom_ratios_invariant:
  assumes "ratios_inv (customRatios st)"
  shows "ratios_inv (customRatios (handleAddRatio st)) \<and>
         ratios_inv (customRatios (handleRemoveRatio r st)) \<and>
         ratios_inv (customRatios (ratio_run evs st)) \<and>
         distinct (customRatios (saveCustomRatios rs st))"
  using assms
  by (simp add: ratios_inv_add ratios_inv_remove ratios_inv_run distinct_unique
      customRatios_save)

theorem custom_ratios_invariant_witness:
  "ratios_inv (customRatios (initial_state\<lparr>customRatios := [''5:4''], newRatio := '' 7:5 ''\<rparr>)) \<and>
   ratios_inv (customRatios
     (ratio_run [AddRatio, RemoveRatio ''5:4'']
        (initial_state\<lparr>customRatios := [''5:4''], newRatio := '' 7:5 ''\<rparr>))) \<and>
   customRatios
     (ratio_run [AddRatio, RemoveRatio ''5:4'']
        (initial_state\<lparr>customRatios := [''5:4''], newRatio := '' 7:5 ''\<rparr>)) = [''7:5'']"
proof -
  define st where "st = initial_state\<lparr>customRatios := [''5:4''], newRatio := '' 7:5 ''\<rparr>"
  have h: "ratios_inv (customRatios st)"
    by (simp add: st_def ratios_inv_def analyzerAspectRatios_def)
  have t: "trim '' 7:5 '' = ''7:5''"
    by (simp add: trim_def is_space_def)
  have m: "ratioRegex_test ''7:5''"
    by (simp add: ratioRegex_test_def is_digit_def is_nonzero_digit_def)
  have run: "customRatios (ratio_run [AddRatio, RemoveRatio ''5:4''] st) = [''7:5'']"
    by (simp add: ratio_run_def handleAddRatio_def handleRemoveRatio_def Let_def t m
        saveCustomRatios_def unique_def set_add_def analyzerAspectRatios_def st_def
        initial_state_def)
  from custom_ratios_invariant [OF h, of "''5:4''" "[AddRatio, RemoveRatio ''5:4'']" "[]"] h run
  show ?thesis
    unfolding st_def by simp
qed

section \<open>The box around the rotated image\<close>

lemma angleRad_0: "angleRad 0 = 0"
  by (simp add: angleRad_def)

lemma angleRad_90: "angleRad 90 = pi / 2"
  by (simp add: angleRad_def)

lemma angleRad_360: "angleRad (x + 360) = angleRad x + 2 * pi"
  by (simp add: angleRad_def field_simps)

text \<open>
  Claim C4.  For every width \<open>w\<close>, height \<open>h\<close> and angle \<open>x\<close> in degrees the
  box has width \<open>w |cos| + h |sin|\<close> and height \<open>w |sin| + h |cos|\<close> of
  the angle \<open>x pi / 180\<close>.  It is \<open>(w, h)\<close> at \<open>0\<close> degrees and \<open>(h, w)\<close>
  at \<open>90\<close> degrees, and it does not change when \<open>360\<close> degrees are added
  to the angle.  The temporary canvas gets these two numbers without their
  fractional parts.  (Over the real numbers the equalities are exact.)
\<close>

theorem rotated_box_formula:
  "rotatedBox w h x =
     (w * \<bar>cos (x * pi / 180)\<bar> + h * \<bar>sin (x * pi / 180)\<bar>,
      w * \<bar>sin (x * pi / 180)\<bar> + h * \<bar>cos (x * pi / 180)\<bar>) \<and>
   rotatedBox w h 0 = (w, h) \<and>
   rotatedBox w h 90 = (h, w) \<and>
   rotatedBox w h (x + 360) = rotatedBox w h x \<and>
   temp_width (render file st nw nh rw rh) =
     canvas_size (fst (rotatedBox (real nw) (real nh) (rotation st))) \<and>
   temp_height (render file st nw nh rw rh) =
     canvas_size (snd (rotatedBox (real nw) (real nh) (rotation st)))"
proof -
  have "rotatedBox w h x =
     (w * \<bar>cos (x * pi / 180)\<bar> + h * \<bar>sin (x * pi / 180)\<bar>,
      w * \<bar>sin (x * pi / 180)\<bar> + h * \<bar>cos (x * pi / 180)\<bar>)"
    by (simp add: rotatedBox_def angleRad_def Let_def)
  moreover have "rotatedBox w h 0 = (w, h)"
    by (simp add: rotatedBox_def angleRad_0 Let_def)
  moreover have "rotatedBox w h 90 = (h, w)"
    by (simp add: rotatedBox_def angleRad_90 Let_def)
  moreover have "rotatedBox w h (x + 360) = rotatedBox w h x"
    by (simp add: rotatedBox_def angleRad_360 Let_def)
  moreover have "temp_width (render file st nw nh rw rh) =
     canvas_size (fst (rotatedBox (real nw) (real nh) (rotation st)))"
    by (simp add: render_def Let_def)
  moreover have "temp_height (render file st nw nh rw rh) =
     canvas_size (snd (rotatedBox (real nw) (real nh) (rotation st)))"
    by (simp add: render_def Let_def)
  ultimately show ?thesis
    by blast
qed

theorem rotated_box_formula_witness:
  "rotatedBox 4 3 0 = (4, 3) \<and> rotatedBox 4 3 90 = (3, 4) \<and>
   rotatedBox 4 3 450 = rotatedBox 4 3 90 \<and>
   temp_width (render sample_file (sample_state\<lparr>rotation := 90\<rparr>) 4 3 1 1) = 3 \<and>
   temp_height (render sample_file (sample_state\<lparr>rotation := 90\<rparr>) 4 3 1 1) = 4"
  using rotated_box_formula [of 4 3 90 sample_file "sample_state\<lparr>rotation := 90\<rparr>" 4 3 1 1]
  by (simp add: canvas_size_def)

lemma abs_sin_cos_ge_1: "1 \<le> \<bar>cos a\<bar> + \<bar>sin (a::real)\<bar>"
proof -
  have "(\<bar>cos a\<bar> + \<bar>sin a\<bar>)\<^sup>2 = 1 + 2 * \<bar>cos a\<bar> * \<bar>sin a\<bar>"
    by (simp add: power2_sum)
  then have "1\<^sup>2 \<le> (\<bar>cos a\<bar> + \<bar>sin a\<bar>)\<^sup>2"
    by simp
  then show ?thesis
    by (rule power2_le_imp_le) simp
qed

lemma rotatedBox_ge_1:
  assumes "1 \<le> w" and "1 \<le> h"
  shows "1 \<le> fst (rotatedBox w h x)" and "1 \<le> snd (rotatedBox w h x)"
proof -
  define c where "c = \<bar>cos (angleRad x)\<bar>"
  define s where "s = \<bar>sin (angleRad x)\<bar>"
  have cs: "0 \<le> c" "0 \<le> s" "1 \<le> c + s"
    using abs_sin_cos_ge_1 [of "angleRad x"] by (simp_all add: c_def s_def)
  have "c \<le> w * c" "s \<le> h * s" "s \<le> w * s" "c \<le> h * c"
    using assms cs by (simp_all add: mult_le_cancel_right1)
  then have "1 \<le> w * c + h * s" "1 \<le> w * s + h * c"
    using cs by linarith+
  then show "1 \<le> fst (rotatedBox w h x)" and "1 \<le> snd (rotatedBox w h x)"
    by (simp_all add: rotatedBox_def Let_def c_def s_def)
qed

lemma temp_canvas_positive:
  assumes "0 < nw" and "0 < nh"
  shows "0 < temp_width (render file st nw nh W H)"
    and "0 < temp_height (render file st nw nh W H)"
proof -
  have "1 \<le> real nw" "1 \<le> real nh"
    using assms by simp_all
  from rotatedBox_ge_1 [OF this, of "rotation st"]
  show "0 < temp_width (render file st nw nh W H)"
    and "0 < temp_height (render file st nw nh W H)"
    by (simp_all add: render_def Let_def canvas_size_def)
qed

section \<open>Mirror and rotation\<close>












section \<open>Runs that resolve\<close>

lemma parseRatio_nonempty: "parseRatio ratio = (Some W, Some H) \<Longrightarrow> ratio \<noteq> []"
  by (auto simp: parseRatio_def Number_js_def)

lemma compose_valid:
  assumes "selectedFile st = Some file" and "previewUrl st = Some url" and "url \<noteq> []"
    and "effectiveAspectRatio st = Some ratio"
    and "parseRatio ratio = (Some W, Some H)" and "0 < W" and "0 < H"
    and "env_load env = Loaded nw nh" and "0 < nw" and "0 < nh"
    and "env_tempCtx env" and "env_finalCtx env"
  shows "getProcessedImageAsDataUrl env st = Some (Inr (render file st nw nh W H))"
  using assms parseRatio_nonempty [OF assms(5)]
  by (simp add: getProcessedImageAsDataUrl_def)

lemma compose_resolved:
  assumes "getProcessedImageAsDataUrl env st = Some (Inr p)"
  shows "\<exists>file ratio W H nw nh. selectedFile st = Some file \<and>
           effectiveAspectRatio st = Some ratio \<and> parseRatio ratio = (Some W, Some H) \<and>
           0 < W \<and> 0 < H \<and> env_load env = Loaded nw nh \<and> 0 < nw \<and> 0 < nh \<and>
           p = render file st nw nh W H"
  using assms
  by (auto simp: getProcessedImageAsDataUrl_def
      split: option.splits if_splits image_load.splits prod.splits)

lemma sample_fields:
  "selectedFile sample_state = Some sample_file"
  "previewUrl sample_state = Some ''blob:sample''"
  "resizeMode sample_state = Crop"
  "rotation sample_state = 0"
  "isMirrored sample_state = False"
  by (simp_all add: sample_state_def handleFileChange_def image_onload_def Let_def
      initial_state_def)

lemma sample_run:
  "getProcessedImageAsDataUrl sample_env sample_state =
     Some (Inr (render sample_file sample_state 1920 1080 1920 1080))"
proof (rule compose_valid [where url = "''blob:sample''"
      and ratio = "string_of_nat 1920 @ '':'' @ string_of_nat 1080"])
  show "effectiveAspectRatio sample_state =
          Some (string_of_nat 1920 @ '':'' @ string_of_nat 1080)"
    unfolding sample_state_def by (rule effective_after_load)
  show "parseRatio (string_of_nat 1920 @ '':'' @ string_of_nat 1080) = (Some 1920, Some 1080)"
    by (rule parseRatio_auto)
  show "''blob:sample'' \<noteq> []"
    by simp
qed (simp_all add: sample_fields sample_env_def)

section \<open>Fitting into the output\<close>



lemma crop_cases:
  assumes "0 < iw" and "0 < ih" and "0 < t"
  shows "let d = drawFinal Crop iw ih t ow oh in
     (real iw / real ih > t \<longrightarrow>
        src_w d = real ih * t \<and> src_h d = real ih \<and>
        src_x d = (real iw - real ih * t) / 2 \<and> src_y d = 0) \<and>
     (real iw / real ih < t \<longrightarrow>
        src_h d = real iw / t \<and> src_w d = real iw \<and>
        src_y d = (real ih - real iw / t) / 2 \<and> src_x d = 0) \<and>
     (real iw / real ih = t \<longrightarrow>
        src_x d = 0 \<and> src_y d = 0 \<and> src_w d = real iw \<and> src_h d = real ih) \<and>
     dst_x d = 0 \<and> dst_y d = 0 \<and> dst_w d = ow \<and> dst_h d = oh \<and>
     0 \<le> src_x d \<and> 0 \<le> src_y d \<and>
     src_x d + src_w d + src_x d = real iw \<and> src_y d + src_h d + src_y d = real ih \<and>
     src_w d = src_h d * t"
proof -
  have ihpos: "0 < real ih" and iwpos: "0 < real iw"
    using assms by simp_all
  consider (wide) "real iw / real ih > t" | (narrow) "real iw / real ih < t"
    | (same) "real iw / real ih = t"
    by linarith
  then show ?thesis
  proof cases
    case wide
    then have "real ih * t < real iw"
      using ihpos by (simp add: pos_less_divide_eq mult.commute)
    with wide show ?thesis
      by (simp add: drawFinal_def Let_def diff_divide_distrib)
  next
    case narrow
    then have "real iw < t * real ih"
      using ihpos by (simp add: pos_divide_less_eq)
    then have "real iw / t < real ih"
      using assms(3) by (simp add: pos_divide_less_eq mult.commute)
    with narrow assms(3) show ?thesis
      by (simp add: drawFinal_def Let_def diff_divide_distrib)
  next
    case same
    then have "real iw = real ih * t"
      using ihpos by (simp add: field_simps)
    with same show ?thesis
      by (simp add: drawFinal_def Let_def)
  qed
qed

text \<open>
  Claim C1.  Let the temporary canvas have positive width \<open>iw\<close> and height
  \<open>ih\<close>, and let the target ratio be \<open>t = W / H\<close> for positive \<open>W\<close> and
  \<open>H\<close>.  Under the crop policy the source rectangle of the final
  \<^verbatim>\<open>drawImage\<close> is: for \<open>iw / ih > t\<close>, of width \<open>ih t\<close> and full height,
  starting at \<open>((iw - ih t) / 2, 0)\<close>; for \<open>iw / ih < t\<close>, of full width and
  height \<open>iw / t\<close>, starting at \<open>(0, (ih - iw / t) / 2)\<close>; for
  \<open>iw / ih = t\<close>, the whole canvas.  The destination rectangle is the whole
  output, \<open>1024\<close> wide and \<open>1024 / t\<close> high, at the origin.  In each case
  the source rectangle lies inside the canvas, is centred, and has the ratio
  \<open>t\<close>.  A run with the crop policy over an image of positive extent issues
  this call on a temporary canvas of positive extent.
\<close>

theorem crop_region:
  assumes "0 < iw" and "0 < ih" and "0 < W" and "0 < H"
    and "0 < nw" and "0 < nh" and "resizeMode st = Crop"
  shows "let t = real W / real H;
             d = drawFinal Crop iw ih t 1024 (1024 / t);
             p = render file st nw nh W H
         in (real iw / real ih > t \<longrightarrow>
               src_w d = real ih * t \<and> src_h d = real ih \<and>
               src_x d = (real iw - real ih * t) / 2 \<and> src_y d = 0) \<and>
            (real iw / real ih < t \<longrightarrow>
               src_h d = real iw / t \<and> src_w d = real iw \<and>
               src_y d = (real ih - real iw / t) / 2 \<and> src_x d = 0) \<and>
            (real iw / real ih = t \<longrightarrow>
               src_x d = 0 \<and> src_y d = 0 \<and> src_w d = real iw \<and> src_h d = real ih) \<and>
            dst_x d = 0 \<and> dst_y d = 0 \<and> dst_w d = 1024 \<and> dst_h d = 1024 / t \<and>
            0 \<le> src_x d \<and> 0 \<le> src_y d \<and>
            src_x d + src_w d + src_x d = real iw \<and>
            src_y d + src_h d + src_y d = real ih \<and>
            src_w d = src_h d * t \<and>
            final_draw p = drawFinal Crop (temp_width p) (temp_height p) t 1024 (1024 / t) \<and>
            0 < temp_width p \<and> 0 < temp_height p"
proof -
  define t where "t = real W / real H"
  have tpos: "0 < t"
    using assms(3,4) by (simp add: t_def)
  define p where "p = render file st nw nh W H"
  have call: "final_draw p = drawFinal Crop (temp_width p) (temp_height p) t 1024 (1024 / t)"
    using assms(7) by (simp add: p_def render_def Let_def t_def)
  have size: "0 < temp_width p" "0 < temp_height p"
    unfolding p_def using assms(5,6) by (rule temp_canvas_positive)+
  from crop_cases [OF assms(1,2) tpos, of 1024 "1024 / t"] call size
  show ?thesis
    unfolding Let_def t_def [symmetric] p_def [symmetric] by blast
qed

theorem crop_region_witness:
  "(0::nat) < 1920 \<and> (0::nat) < 1080 \<and> (0::nat) < 1 \<and> resizeMode sample_state = Crop \<and>
   (real 1920 / real 1080 > real 1 / real 1 \<and>
    src_x (drawFinal Crop 1920 1080 (real 1 / real 1) 1024 (1024 / (real 1 / real 1))) = 420 \<and>
    src_y (drawFinal Crop 1920 1080 (real 1 / real 1) 1024 (1024 / (real 1 / real 1))) = 0 \<and>
    src_w (drawFinal Crop 1920 1080 (real 1 / real 1) 1024 (1024 / (real 1 / real 1))) = 1080 \<and>
    src_h (drawFinal Crop 1920 1080 (real 1 / real 1) 1024 (1024 / (real 1 / real 1))) = 1080 \<and>
    dst_w (drawFinal Crop 1920 1080 (real 1 / real 1) 1024 (1024 / (real 1 / real 1))) = 1024 \<and>
    dst_h (drawFinal Crop 1920 1080 (real 1 / real 1) 1024 (1024 / (real 1 / real 1))) = 1024) \<and>
   (real 1080 / real 1920 < real 1 / real 1 \<and>
    src_x (drawFinal Crop 1080 1920 (real 1 / real 1) 1024 (1024 / (real 1 / real 1))) = 0 \<and>
    src_y (drawFinal Crop 1080 1920 (real 1 / real 1) 1024 (1024 / (real 1 / real 1))) = 420 \<and>
    src_w (drawFinal Crop 1080 1920 (real 1 / real 1) 1024 (1024 / (real 1 / real 1))) = 1080 \<and>
    src_h (drawFinal Crop 1080 1920 (real 1 / real 1) 1024 (1024 / (real 1 / real 1))) = 1080) \<and>
   (real 1920 / real 1080 = real 16 / real 9 \<and>
    src_x (drawFinal Crop 1920 1080 (real 16 / real 9) 1024 (1024 / (real 16 / real 9))) = 0 \<and>
    src_y (drawFinal Crop 1920 1080 (real 16 / real 9) 1024 (1024 / (real 16 / real 9))) = 0 \<and>
    src_w (drawFinal Crop 1920 1080 (real 16 / real 9) 1024 (1024 / (real 16 / real 9))) = 1920 \<and>
    src_h (drawFinal Crop 1920 1080 (real 16 / real 9) 1024 (1024 / (real 16 / real 9))) = 1080 \<and>
    dst_h (drawFinal Crop 1920 1080 (real 16 / real 9) 1024 (1024 / (real 16 / real 9))) = 576)"
proof -
  have wide: "real 1920 / real 1080 > real 1 / real 1 \<and>
    src_x (drawFinal Crop 1920 1080 (real 1 / real 1) 1024 (1024 / (real 1 / real 1))) = 420 \<and>
    src_y (drawFinal Crop 1920 1080 (real 1 / real 1) 1024 (1024 / (real 1 / real 1))) = 0 \<and>
    src_w (drawFinal Crop 1920 1080 (real 1 / real 1) 1024 (1024 / (real 1 / real 1))) = 1080 \<and>
    src_h (drawFinal Crop 1920 1080 (real 1 / real 1) 1024 (1024 / (real 1 / real 1))) = 1080 \<and>
    dst_w (drawFinal Crop 1920 1080 (real 1 / real 1) 1024 (1024 / (real 1 / real 1))) = 1024 \<and>
    dst_h (drawFinal Crop 1920 1080 (real 1 / real 1) 1024 (1024 / (real 1 / real 1))) = 1024"
    using crop_region [of 1920 1080 1 1 1920 1080 sample_state sample_file]
    by (simp add: Let_def sample_fields)
  have narrow: "real 1080 / real 1920 < real 1 / real 1 \<and>
    src_x (drawFinal Crop 1080 1920 (real 1 / real 1) 1024 (1024 / (real 1 / real 1))) = 0 \<and>
    src_y (drawFinal Crop 1080 1920 (real 1 / real 1) 1024 (1024 / (real 1 / real 1))) = 420 \<and>
    src_w (drawFinal Crop 1080 1920 (real 1 / real 1) 1024 (1024 / (real 1 / real 1))) = 1080 \<and>
    src_h (drawFinal Crop 1080 1920 (real 1 / real 1) 1024 (1024 / (real 1 / real 1))) = 1080"
    using crop_region [of 1080 1920 1 1 1920 1080 sample_state sample_file]
    by (simp add: Let_def sample_fields)
  have same: "real 1920 / real 1080 = real 16 / real 9 \<and>
    src_x (drawFinal Crop 1920 1080 (real 16 / real 9) 1024 (1024 / (real 16 / real 9))) = 0 \<and>
    src_y (drawFinal Crop 1920 1080 (real 16 / real 9) 1024 (1024 / (real 16 / real 9))) = 0 \<and>
    src_w (drawFinal Crop 1920 1080 (real 16 / real 9) 1024 (1024 / (real 16 / real 9))) = 1920 \<and>
    src_h (drawFinal Crop 1920 1080 (real 16 / real 9) 1024 (1024 / (real 16 / real 9))) = 1080 \<and>
    dst_h (drawFinal Crop 1920 1080 (real 16 / real 9) 1024 (1024 / (real 16 / real 9))) = 576"
    using crop_region [of 1920 1080 16 9 1920 1080 sample_state sample_file]
    by (simp add: Let_def sample_fields)
  have "(0::nat) < 1920 \<and> (0::nat) < 1080 \<and> (0::nat) < 1 \<and> resizeMode sample_state = Crop"
    by (simp add: sample_fields)
  with wide narrow same show ?thesis
    by blast
qed



section \<open>The encoding and the declared type\<close>

text \<open>
  Claim C8.  A run that resolves encodes the final canvas in the type of the
  selected file when that type is \<open>image/jpeg\<close> or \<open>image/png\<close>, and in
  \<open>image/png\<close> for every other file type.
\<close>

theorem output_encoding:
  assumes "getProcessedImageAsDataUrl env st = Some (Inr p)"
    and "selectedFile st = Some file"
  shows "out_mimeType p =
           (if file_type file = ''image/jpeg'' \<or> file_type file = ''image/png''
            then file_type file else ''image/png'')"
proof -
  from compose_resolved [OF assms(1)] assms(2)
  obtain W H nw nh where "p = render file st nw nh W H"
    by auto
  then show ?thesis
    by (simp add: render_def Let_def outputMimeType_def)
qed

theorem output_encoding_witness:
  "getProcessedImageAsDataUrl sample_env sample_state =
     Some (Inr (render sample_file sample_state 1920 1080 1920 1080)) \<and>
   selectedFile sample_state = Some sample_file \<and>
   file_type sample_file = ''image/webp'' \<and>
   out_mimeType (render sample_file sample_state 1920 1080 1920 1080) = ''image/png''"
  using output_encoding [OF sample_run sample_fields(1)] sample_run sample_fields(1)
  by (simp add: sample_file_def)

text \<open>
  Claim C9.  When the selected file is neither \<open>image/jpeg\<close> nor
  \<open>image/png\<close> and the run resolves, the data is encoded as \<open>image/png\<close>,
  while \<open>handleAnalyze\<close> sends it to the analysis service under the type of the
  file: the declared type of the request differs from the encoding of its
  data.
\<close>

theorem declared_type_mismatch:
  assumes "selectedFile st = Some file"
    and "file_type file \<noteq> ''image/jpeg''" and "file_type file \<noteq> ''image/png''"
    and "getProcessedImageAsDataUrl env st = Some (Inr p)"
  shows "out_mimeType p = ''image/png'' \<and>
         handleAnalyze env st = Some (Sent \<lparr>req_mimeType = file_type file, req_data = p\<rparr>) \<and>
         (\<forall>req. handleAnalyze env st = Some (Sent req) \<longrightarrow>
            req_mimeType req \<noteq> out_mimeType (req_data req))"
proof -
  from compose_resolved [OF assms(4)] assms(1)
  obtain W H nw nh where "p = render file st nw nh W H"
    by auto
  then have png: "out_mimeType p = ''image/png''"
    using assms(2,3) by (simp add: render_def Let_def outputMimeType_def)
  have sent: "handleAnalyze env st = Some (Sent \<lparr>req_mimeType = file_type file, req_data = p\<rparr>)"
    using assms(1,4) by (simp add: handleAnalyze_def)
  from png sent assms(3) show ?thesis
    by auto
qed

theorem declared_type_mismatch_witness:
  "selectedFile sample_state = Some sample_file \<and>
   file_type sample_file \<noteq> ''image/jpeg'' \<and> file_type sample_file \<noteq> ''image/png'' \<and>
   handleAnalyze sample_env sample_state =
     Some (Sent \<lparr>req_mimeType = ''image/webp'',
                 req_data = render sample_file sample_state 1920 1080 1920 1080\<rparr>) \<and>
   out_mimeType (render sample_file sample_state 1920 1080 1920 1080) = ''image/png''"
proof -
  have t: "file_type sample_file \<noteq> ''image/jpeg''" "file_type sample_file \<noteq> ''image/png''"
    by (simp_all add: sample_file_def)
  from declared_type_mismatch [OF sample_fields(1) t sample_run] sample_fields(1) t
  show ?thesis
    by (simp add: sample_file_def)
qed

end
